theory Spec2Isabelle
  imports Main "HOL-Library.Sublist"
begin

section \<open>The failure channel of the bridge\<close>

text \<open>
  What the managed runtime can observe of a bridge call that does not return:
  \<^item> \<open>Failure msg\<close>: \<^verbatim>\<open>caml_failwith(msg)\<close>;
  \<^item> \<open>Invalid_argument msg\<close>: \<^verbatim>\<open>caml_invalid_argument(msg)\<close>;
  \<^item> \<open>Segfault\<close>: undefined behaviour in C++ (a null or dangling pointer was dereferenced, an
    array was read past its end).

  Inside a bridge function a C++ computation either returns a value (\<open>Inr\<close>) or throws a
  \<^verbatim>\<open>std::exception\<close> whose \<^verbatim>\<open>what()\<close> is the string under \<open>Inl\<close>. The library's
  \<^verbatim>\<open>arrow::Result<T>\<close> is the same sum (\<open>Inl\<close> holds \<^verbatim>\<open>status().ToString()\<close>), and
  \<^verbatim>\<open>arrow::Status\<close> is a \<open>string option\<close> (\<open>None\<close> is OK).
\<close>

datatype error = Failure string | Invalid_argument string | Segfault

definition ok_exn :: "string + 'a \<Rightarrow> string + 'a" where
  "ok_exn a = (case a of Inl status \<Rightarrow> Inl status | Inr v \<Rightarrow> Inr v)"

definition status_exn :: "string option \<Rightarrow> string + unit" where
  "status_exn st = (case st of Some status \<Rightarrow> Inl status | None \<Rightarrow> Inr ())"

text \<open>
  A \<open>string\<close> here is a sequence of bytes, as a \<^verbatim>\<open>std::string\<close> is. Where the code reads one
  as a C string (\<^verbatim>\<open>strdup\<close>, \<^verbatim>\<open>%s\<close>, the conversion of a \<^verbatim>\<open>char *\<close> to a \<^verbatim>\<open>std::string\<close>) it
  sees the bytes in front of the first NUL byte only.
\<close>

definition c_str :: "string \<Rightarrow> string" where
  "c_str s = takeWhile (\<lambda>c. c \<noteq> CHR 0x00) s"

text \<open>
  \<^verbatim>\<open>OCAML_BEGIN_PROTECT_EXN ... OCAML_END_PROTECT_EXN\<close>: the text of a caught exception is
  copied as a C string with \<^verbatim>\<open>strdup(e.what())\<close> and then with
  \<^verbatim>\<open>snprintf(err, 255, "%s", ...)\<close>, which writes at most 254 bytes, and handed to
  \<^verbatim>\<open>caml_failwith\<close>.
\<close>

definition protect_exn :: "string + 'a \<Rightarrow> error + 'a" where
  "protect_exn body =
     (case body of Inl what \<Rightarrow> Inl (Failure (take 254 (c_str what))) | Inr v \<Rightarrow> Inr v)"



subsection \<open>\<^verbatim>\<open>std::to_string\<close> and \<^verbatim>\<open>%d\<close> on an \<^verbatim>\<open>int\<close>\<close>

definition digit :: "nat \<Rightarrow> char" where
  "digit n = ''0123456789'' ! n"

function string_of_nat :: "nat \<Rightarrow> string" where
  "string_of_nat n =
     (if n < 10 then [digit n] else string_of_nat (n div 10) @ [digit (n mod 10)])"
  by pat_completeness auto
termination
  by (relation "measure id") auto

declare string_of_nat.simps [simp del]

definition to_string :: "int \<Rightarrow> string" where
  "to_string i =
     (if i < 0 then CHR ''-'' # string_of_nat (nat (- i)) else string_of_nat (nat i))"

section \<open>Compression codec selector\<close>

datatype Compression =
  UNCOMPRESSED | SNAPPY | GZIP | BROTLI | ZSTD | LZ4 | LZ4_FRAME | LZO | BZ2

definition compression_of_int :: "int \<Rightarrow> Compression" where
  "compression_of_int compression =
     (if compression = 1 then SNAPPY
      else if compression = 2 then GZIP
      else if compression = 3 then BROTLI
      else if compression = 4 then ZSTD
      else if compression = 5 then LZ4
      else if compression = 6 then LZ4_FRAME
      else if compression = 7 then LZO
      else if compression = 8 then BZ2
      else UNCOMPRESSED)"

section \<open>Tables as the bridge sees them\<close>

text \<open>
  The members of \<^verbatim>\<open>arrow::Type::type\<close> that the bridge names, and one constructor for all
  the others. The numeric value of an enumerator, which \<^verbatim>\<open>std::to_string(expected_type)\<close>
  prints, is declared in the library's headers; the functions below take it as the parameter
  \<open>type_num\<close>.
\<close>

datatype Type = INT64 | DOUBLE | STRING | DATE32 | TIMESTAMP | BOOL | Other_type nat

text \<open>\<^verbatim>\<open>arrow::DataType\<close>: what \<^verbatim>\<open>id()\<close> and \<^verbatim>\<open>ToString()\<close> return.\<close>

record DataType =
  type_id :: Type
  ToString :: string

text \<open>
  One chunk (\<^verbatim>\<open>arrow::Array\<close>): its type and the C descriptor that \<^verbatim>\<open>arrow::ExportArray\<close>
  writes for it. A chunked column is the list of its chunks.
\<close>

record 'd Array =
  type_of :: DataType
  ExportArray :: 'd

text \<open>
  \<^verbatim>\<open>arrow::Table\<close> through the member functions the bridge calls. \<open>None\<close> is the null
  \<^verbatim>\<open>shared_ptr\<close> that \<^verbatim>\<open>GetColumnByName\<close> returns for an unknown name. \<open>storage\<close> is the set
  of data buffers the table's columns point into.
\<close>

record ('d, 's) Table =
  num_columns :: int
  column :: "int \<Rightarrow> 'd Array list option"
  GetColumnByName :: "string \<Rightarrow> 'd Array list option"
  num_rows :: int
  schema :: 's
  storage :: "nat set"

section \<open>Column extraction\<close>

definition check_column_idx :: "int \<Rightarrow> int \<Rightarrow> error + unit" where
  "check_column_idx column_idx n_cols =
     (if column_idx < 0 \<or> column_idx \<ge> n_cols
      then Inl (Failure (take 126 (''invalid column index '' @ to_string column_idx
                                    @ '' (ncols: '' @ to_string n_cols @ '')'')))
      else Inr ())"

text \<open>The chain of tests on \<open>dt\<close>: the expected type and its name, or the exception thrown.\<close>

definition expected_type_of :: "int \<Rightarrow> string + (Type \<times> string)" where
  "expected_type_of dt =
     (if dt = 0 then Inr (INT64, ''int64'')
      else if dt = 1 then Inr (DOUBLE, ''float64'')
      else if dt = 2 then Inr (STRING, ''utf8'')
      else if dt = 3 then Inr (DATE32, ''date32'')
      else if dt = 4 then Inr (TIMESTAMP, ''timestamp'')
      else if dt = 5 then Inr (BOOL, ''bool'')
      else Inl (''unknown datatype '' @ to_string dt))"

text \<open>The text of the exception thrown at a chunk whose type is not the expected one.\<close>

definition type_mismatch_what :: "(Type \<Rightarrow> int) \<Rightarrow> Type \<Rightarrow> string \<Rightarrow> DataType \<Rightarrow> string" where
  "type_mismatch_what type_num expected_type expected_type_str actual =
     ''expected type with '' @ expected_type_str @ '' (id ''
       @ to_string (type_num expected_type) @ '') got '' @ ToString actual"

text \<open>
  The loop over the chunks: chunk \<open>i\<close> is checked and then exported into \<open>out + i\<close>; the
  first chunk of another type throws.
\<close>

fun export_chunks ::
  "(Type \<Rightarrow> int) \<Rightarrow> Type \<Rightarrow> string \<Rightarrow> 'd Array list \<Rightarrow> string + 'd list" where
  "export_chunks type_num expected_type expected_type_str [] = Inr []"
| "export_chunks type_num expected_type expected_type_str (chunk # rest) =
     (if type_id (type_of chunk) \<noteq> expected_type
      then Inl (type_mismatch_what type_num expected_type expected_type_str (type_of chunk))
      else (case export_chunks type_num expected_type expected_type_str rest of
              Inl what \<Rightarrow> Inl what
            | Inr out \<Rightarrow> Inr (ExportArray chunk # out)))"

text \<open>
  The column lookup: by name when \<open>column_name\<close> is not null, by index otherwise. \<open>Inr None\<close>
  is a null \<open>array\<close> that reaches the second test. The name is a \<^verbatim>\<open>char *\<close>, read as a C
  string by \<^verbatim>\<open>std::string(column_name)\<close> and by the concatenation.
\<close>

definition find_column ::
  "('d, 's) Table \<Rightarrow> string option \<Rightarrow> int \<Rightarrow> string + 'd Array list option" where
  "find_column table column_name column_idx =
     (case column_name of
        Some name \<Rightarrow>
          (case GetColumnByName table (c_str name) of
             None \<Rightarrow> Inl (''cannot find column '' @ c_str name)
           | Some array \<Rightarrow> Inr (Some array))
      | None \<Rightarrow> Inr (column table column_idx))"

text \<open>
  \<^verbatim>\<open>table_chunked_column_\<close>, on the table a valid handle points to. The first component of
  the result is the content of \<^verbatim>\<open>*nchunks\<close> when the call ends, \<open>nchunks\<close> being its content
  before; the second is what the caller gets: the descriptors, or the failure.
\<close>

definition table_chunked_column_impl ::
  "(Type \<Rightarrow> int) \<Rightarrow> ('d, 's) Table \<Rightarrow> string option \<Rightarrow> int \<Rightarrow> int \<Rightarrow> int
     \<Rightarrow> int \<times> (error + 'd list)" where
  "table_chunked_column_impl type_num table column_name column_idx nchunks dt =
     (case expected_type_of dt of
        Inl what \<Rightarrow> (nchunks, protect_exn (Inl what))
      | Inr (expected_type, expected_type_str) \<Rightarrow>
          (case find_column table column_name column_idx of
             Inl what \<Rightarrow> (nchunks, protect_exn (Inl what))
           | Inr None \<Rightarrow> (nchunks, protect_exn (Inl ''error finding column''))
           | Inr (Some array) \<Rightarrow>
               (int (length array),
                protect_exn (export_chunks type_num expected_type expected_type_str array))))"

definition table_chunked_column ::
  "(Type \<Rightarrow> int) \<Rightarrow> ('d, 's) Table \<Rightarrow> int \<Rightarrow> int \<Rightarrow> int \<Rightarrow> int \<times> (error + 'd list)" where
  "table_chunked_column type_num table column_idx nchunks dt =
     (case check_column_idx column_idx (num_columns table) of
        Inl e \<Rightarrow> (nchunks, Inl e)
      | Inr _ \<Rightarrow> table_chunked_column_impl type_num table None column_idx nchunks dt)"

definition table_chunked_column_by_name ::
  "(Type \<Rightarrow> int) \<Rightarrow> ('d, 's) Table \<Rightarrow> string option \<Rightarrow> int \<Rightarrow> int
     \<Rightarrow> int \<times> (error + 'd list)" where
  "table_chunked_column_by_name type_num table col_name nchunks dt =
     table_chunked_column_impl type_num table col_name 0 nchunks dt"

section \<open>Table handles\<close>

text \<open>
  A \<^verbatim>\<open>TablePtr *\<close> is the address of a heap cell made by
  \<^verbatim>\<open>new std::shared_ptr<arrow::Table>(...)\<close>; address 0 is \<^verbatim>\<open>NULL\<close>. The store keeps
  \<^item> \<open>handles\<close>: the live cells, each with the table object its \<^verbatim>\<open>shared_ptr\<close> owns a share of;
  \<^item> \<open>tables\<close>: the table objects that are alive;
  \<^item> \<open>use_count\<close>: the number of \<^verbatim>\<open>shared_ptr\<close>s that own each object;
  \<^item> \<open>next_handle\<close>, \<open>next_table\<close>: where the allocator puts the next cell and object.
\<close>

record ('d, 's) heap =
  handles :: "nat \<rightharpoonup> nat"
  tables :: "nat \<rightharpoonup> ('d, 's) Table"
  use_count :: "nat \<Rightarrow> nat"
  next_handle :: nat
  next_table :: nat

text \<open>
  Dereferencing a handle to reach its table: a null handle, a cell that is not live and a
  cell whose object is gone all fault.
\<close>

definition deref :: "('d, 's) heap \<Rightarrow> nat \<Rightarrow> error + ('d, 's) Table" where
  "deref H table =
     (if table = 0 then Inl Segfault
      else (case handles H table of
              None \<Rightarrow> Inl Segfault
            | Some obj \<Rightarrow> (case tables H obj of None \<Rightarrow> Inl Segfault | Some t \<Rightarrow> Inr t)))"

text \<open>
  \<^verbatim>\<open>new std::shared_ptr<arrow::Table>(std::move(t))\<close> for a table object the library has
  just made: the object gets one owner, the new cell. The result is the cell's address.
\<close>

definition new_handle :: "('d, 's) heap \<Rightarrow> ('d, 's) Table \<Rightarrow> nat \<times> ('d, 's) heap" where
  "new_handle H t =
     (next_handle H,
      H\<lparr>handles := (handles H)(next_handle H \<mapsto> next_table H),
        tables := (tables H)(next_table H \<mapsto> t),
        use_count := (use_count H)(next_table H := 1),
        next_handle := Suc (next_handle H),
        next_table := Suc (next_table H)\<rparr>)"

text \<open>
  The allocator never hands out \<^verbatim>\<open>NULL\<close> or an address in use, and every live cell owns a
  share of a live object.
\<close>

definition heap_ok :: "('d, 's) heap \<Rightarrow> bool" where
  "heap_ok H \<longleftrightarrow>
     0 < next_handle H \<and>
     (\<forall>p. next_handle H \<le> p \<longrightarrow> handles H p = None) \<and>
     (\<forall>obj. next_table H \<le> obj \<longrightarrow> tables H obj = None) \<and>
     (\<forall>p obj. handles H p = Some obj \<longrightarrow> tables H obj \<noteq> None \<and> 0 < use_count H obj)"

text \<open>
  \<^verbatim>\<open>table_slice\<close>. \<open>Slice\<close> is the library's \<^verbatim>\<open>Table::Slice\<close>, a parameter. On success the
  result is the new handle and the store with its cell.
\<close>

definition table_slice ::
  "(('d, 's) Table \<Rightarrow> int \<Rightarrow> int \<Rightarrow> ('d, 's) Table) \<Rightarrow> ('d, 's) heap \<Rightarrow> nat \<Rightarrow> int \<Rightarrow> int
     \<Rightarrow> error + (nat \<times> ('d, 's) heap)" where
  "table_slice Slice H table offset len =
     (if offset < 0 then Inl (Invalid_argument ''negative offset'')
      else if len < 0 then Inl (Invalid_argument ''negative length'')
      else (case deref H table of
              Inl e \<Rightarrow> Inl e
            | Inr t \<Rightarrow> Inr (new_handle H (Slice t offset len))))"

definition table_num_rows :: "('d, 's) heap \<Rightarrow> nat \<Rightarrow> error + int" where
  "table_num_rows H table =
     (if table \<noteq> 0
      then (case deref H table of Inl e \<Rightarrow> Inl e | Inr t \<Rightarrow> Inr (num_rows t))
      else Inr 0)"

text \<open>\<^verbatim>\<open>table_schema\<close>: the result stands for the structure \<^verbatim>\<open>ExportSchema\<close> fills.\<close>

definition table_schema :: "('d, 's) heap \<Rightarrow> nat \<Rightarrow> error + 's" where
  "table_schema H table =
     (case deref H table of Inl e \<Rightarrow> Inl e | Inr t \<Rightarrow> Inr (schema t))"

text \<open>
  \<^verbatim>\<open>delete table\<close>: the cell goes, its \<^verbatim>\<open>shared_ptr\<close> gives up its share, and the object is
  destroyed when that was the last share. Deleting an address that is not a live cell is
  undefined behaviour.
\<close>

definition delete_handle :: "('d, 's) heap \<Rightarrow> nat \<Rightarrow> error + ('d, 's) heap" where
  "delete_handle H table =
     (case handles H table of
        None \<Rightarrow> Inl Segfault
      | Some obj \<Rightarrow>
          Inr (H\<lparr>handles := (handles H)(table := None),
                 tables := (if use_count H obj \<le> 1 then (tables H)(obj := None) else tables H),
                 use_count := (use_count H)(obj := use_count H obj - 1)\<rparr>))"

definition free_table :: "('d, 's) heap \<Rightarrow> nat \<Rightarrow> error + ('d, 's) heap" where
  "free_table H table = (if table \<noteq> 0 then delete_handle H table else Inr H)"

section \<open>Streaming Parquet reader\<close>

text \<open>
  An \<^verbatim>\<open>arrow::RecordBatchReader\<close> is the list of what its coming \<^verbatim>\<open>ReadNext\<close> calls
  deliver: a failed status (\<open>Inl\<close>) or a batch (\<open>Inr\<close>); past the end of the list the status
  is OK and the batch is null. \<open>ReadNext\<close> gives the status, the batch and the reader
  after the call.
\<close>

fun ReadNext :: "(string + 'b) list \<Rightarrow> string option \<times> 'b option \<times> (string + 'b) list" where
  "ReadNext [] = (None, None, [])"
| "ReadNext (Inl status # rest) = (Some status, None, rest)"
| "ReadNext (Inr batch # rest) = (None, Some batch, rest)"

text \<open>
  \<^verbatim>\<open>struct ParquetReader\<close>: two \<^verbatim>\<open>unique_ptr\<close>s, \<open>None\<close> when null.
\<close>

record ('f, 'b) ParquetReader =
  reader :: "'f option"
  batch_reader :: "(string + 'b) list option"

text \<open>\<^verbatim>\<open>pr->batch_reader->\<close>: a null \<^verbatim>\<open>unique_ptr\<close> must not be dereferenced.\<close>

definition deref_batch_reader :: "('f, 'b) ParquetReader \<Rightarrow> error + (string + 'b) list" where
  "deref_batch_reader pr =
     (case batch_reader pr of None \<Rightarrow> Inl Segfault | Some it \<Rightarrow> Inr it)"

text \<open>
  \<^verbatim>\<open>parquet_reader_next\<close>. \<open>FromRecordBatches\<close> is the library's table constructor, a
  parameter. The result is what the caller gets (\<open>Inr None\<close> is the null handle at the end
  of the stream, \<open>Inr (Some t)\<close> a new handle on \<open>t\<close>) and the reader after the call.
\<close>

definition parquet_reader_next ::
  "('b list \<Rightarrow> string + 't) \<Rightarrow> ('f, 'b) ParquetReader
     \<Rightarrow> (error + 't option) \<times> ('f, 'b) ParquetReader" where
  "parquet_reader_next FromRecordBatches pr =
     (if batch_reader pr = None then (Inl (Failure ''reader has already been closed''), pr)
      else (case deref_batch_reader pr of
              Inl e \<Rightarrow> (Inl e, pr)
            | Inr it \<Rightarrow>
                (case ReadNext it of
                   (st, batch, it') \<Rightarrow>
                     (protect_exn
                        (case status_exn st of
                           Inl what \<Rightarrow> Inl what
                         | Inr _ \<Rightarrow>
                             (case batch of
                                None \<Rightarrow> Inr None
                              | Some b \<Rightarrow>
                                  (case ok_exn (FromRecordBatches [b]) of
                                     Inl what \<Rightarrow> Inl what
                                   | Inr table \<Rightarrow> Inr (Some table)))),
                      pr\<lparr>batch_reader := Some it'\<rparr>))))"

definition parquet_reader_close :: "('f, 'b) ParquetReader \<Rightarrow> ('f, 'b) ParquetReader" where
  "parquet_reader_close pr = pr\<lparr>batch_reader := None, reader := None\<rparr>"

text \<open>
  A caller's use of one reader handle: a sequence of calls. \<open>run_reader\<close> gives what each
  \<open>Next\<close> of the sequence returned, in order.
\<close>

datatype reader_call = Next | Close

fun run_reader ::
  "('b list \<Rightarrow> string + 't) \<Rightarrow> ('f, 'b) ParquetReader \<Rightarrow> reader_call list
     \<Rightarrow> (error + 't option) list" where
  "run_reader F pr [] = []"
| "run_reader F pr (Next # calls) =
     fst (parquet_reader_next F pr) # run_reader F (snd (parquet_reader_next F pr)) calls"
| "run_reader F pr (Close # calls) = run_reader F (parquet_reader_close pr) calls"

section \<open>Bulk Parquet read\<close>

text \<open>
  An \<^verbatim>\<open>arrow::RecordBatch\<close> is the list of its rows: \<^verbatim>\<open>num_rows()\<close> is the length and
  \<^verbatim>\<open>Slice(offset, length)\<close> the rows from \<open>offset\<close> on, at most \<open>length\<close> of them.
\<close>

definition batch_num_rows :: "'r list \<Rightarrow> int" where
  "batch_num_rows batch = int (length batch)"


text \<open>
  \<^verbatim>\<open>parquet::arrow::FileReader\<close> through the member functions the bridge calls. The
  arguments of \<open>GetRecordBatchReader\<close> are the row groups and, when given, the columns; its
  result is the failed status or the batch reader. \<open>ReadTable\<close> gets the columns, when
  given.
\<close>

record ('r, 't) FileReader =
  num_row_groups :: int
  GetRecordBatchReader :: "int list \<Rightarrow> int list option \<Rightarrow> string + (string + 'r list) list"
  ReadTable :: "int list option \<Rightarrow> string + 't"

text \<open>The library calls of \<^verbatim>\<open>parquet_read_table\<close> that are not members of the reader.\<close>

record ('f, 'r, 't) parquet_lib =
  ReadableFile_Open :: "string \<Rightarrow> string + 'f"
  OpenFile :: "'f \<Rightarrow> string + ('r, 't) FileReader"
  set_use_threads :: "('r, 't) FileReader \<Rightarrow> bool \<Rightarrow> ('r, 't) FileReader"
  FromRecordBatches :: "'r list list \<Rightarrow> string + 't"














section \<open>The library's table constructors\<close>



text \<open>
  Modelled from the library's documentation: \<^verbatim>\<open>arrow::Table::Slice(offset, length)\<close> makes a
  zero-copy slice of the table: \<open>offset\<close> is the index of the first row of the slice and
  \<open>length\<close> the number of its rows, lowered to the rows there are when the table has not
  enough of them. The slice has the schema of the table, each column is the slice of the
  table's column, and nothing is copied: the slice points into the buffers of the table,
  so its \<open>storage\<close> is that of the table (the model does not take out the buffers of chunks
  that lie wholly outside the slice). \<open>ChunkedArray_Slice\<close>, a parameter, is the library's
  slice of one column. The model is for an \<open>offset\<close> inside the table.
\<close>

definition Arrow_Table_Slice ::
  "('d Array list \<Rightarrow> int \<Rightarrow> int \<Rightarrow> 'd Array list) \<Rightarrow> ('d, 's) Table \<Rightarrow> int \<Rightarrow> int
     \<Rightarrow> ('d, 's) Table" where
  "Arrow_Table_Slice ChunkedArray_Slice t offset len =
     t\<lparr>column := (\<lambda>i. map_option (\<lambda>c. ChunkedArray_Slice c offset len) (column t i)),
       GetColumnByName :=
         (\<lambda>name. map_option (\<lambda>c. ChunkedArray_Slice c offset len) (GetColumnByName t name)),
       num_rows := min len (num_rows t - offset)\<rparr>"

section \<open>Native-IPC file writer\<close>

text \<open>
  The library calls of \<^verbatim>\<open>arrow_write_file\<close>. Those that act on the file system or on the
  caller's structures take the state of the world \<open>'w\<close> and give it back.
\<close>

record ('w, 'a, 's, 'o, 'b, 't, 'sch, 'wr) ipc_lib =
  FileOutputStream_Open :: "string \<Rightarrow> 'w \<Rightarrow> (string + 'o) \<times> 'w"
  ImportRecordBatch :: "'a \<Rightarrow> 's \<Rightarrow> 'w \<Rightarrow> (string + 'b) \<times> 'w"
  Table_FromRecordBatches :: "'b list \<Rightarrow> string + 't"
  Table_schema :: "'t \<Rightarrow> 'sch"
  NewFileWriter :: "'o \<Rightarrow> 'sch \<Rightarrow> 'w \<Rightarrow> (string + 'wr) \<times> 'w"
  WriteTable :: "'wr \<Rightarrow> 't \<Rightarrow> 'w \<Rightarrow> string option \<times> 'w"

definition arrow_write_file ::
  "('w, 'a, 's, 'o, 'b, 't, 'sch, 'wr) ipc_lib \<Rightarrow> string \<Rightarrow> 'a \<Rightarrow> 's \<Rightarrow> int \<Rightarrow> 'w
     \<Rightarrow> (error + unit) \<times> 'w" where
  "arrow_write_file lib filename array array_schema chunk_size w =
     (case FileOutputStream_Open lib (c_str filename) w of
        (file, w1) \<Rightarrow>
          (case ok_exn file of
             Inl what \<Rightarrow> (protect_exn (Inl what), w1)
           | Inr outfile \<Rightarrow>
               (case ImportRecordBatch lib array array_schema w1 of
                  (record_batch, w2) \<Rightarrow>
                    (case ok_exn record_batch of
                       Inl what \<Rightarrow> (protect_exn (Inl what), w2)
                     | Inr batch \<Rightarrow>
                         (case ok_exn (Table_FromRecordBatches lib [batch]) of
                            Inl what \<Rightarrow> (protect_exn (Inl what), w2)
                          | Inr table \<Rightarrow>
                              (case NewFileWriter lib outfile (Table_schema lib table) w2 of
                                 (batch_writer, w3) \<Rightarrow>
                                   (case ok_exn batch_writer of
                                      Inl what \<Rightarrow> (protect_exn (Inl what), w3)
                                    | Inr writer \<Rightarrow>
                                        (case WriteTable lib writer table w3 of
                                           (st, w4) \<Rightarrow>
                                             (protect_exn (status_exn st), w4)))))))))"

section \<open>Example inputs\<close>

text \<open>
  Concrete values at which the theorems below are evaluated. \<open>example_type_num\<close> gives the
  enumerators the values they have in the library's headers. \<open>example_table\<close> has three
  columns: one of two \<^verbatim>\<open>int64\<close> chunks, one whose second chunk is a \<^verbatim>\<open>double\<close>, and one of a
  struct type whose only field has a name of 300 characters.
\<close>

definition example_type_num :: "Type \<Rightarrow> int" where
  "example_type_num t =
     (case t of BOOL \<Rightarrow> 1 | INT64 \<Rightarrow> 9 | DOUBLE \<Rightarrow> 12 | STRING \<Rightarrow> 13 | DATE32 \<Rightarrow> 16
      | TIMESTAMP \<Rightarrow> 18 | Other_type k \<Rightarrow> int k)"

definition int64_chunk :: "nat \<Rightarrow> nat Array" where
  "int64_chunk d = \<lparr>type_of = \<lparr>type_id = INT64, ToString = ''int64''\<rparr>, ExportArray = d\<rparr>"

definition double_chunk :: "nat \<Rightarrow> nat Array" where
  "double_chunk d = \<lparr>type_of = \<lparr>type_id = DOUBLE, ToString = ''double''\<rparr>, ExportArray = d\<rparr>"

definition wide_struct_chunk :: "nat \<Rightarrow> nat Array" where
  "wide_struct_chunk d =
     \<lparr>type_of = \<lparr>type_id = Other_type 30,
                  ToString = ''struct<'' @ replicate 300 (CHR ''x'') @ '': int64>''\<rparr>,
      ExportArray = d\<rparr>"

definition example_columns :: "(string \<times> nat Array list) list" where
  "example_columns =
     [(''ints'', [int64_chunk 1, int64_chunk 2]),
      (''mixed'', [int64_chunk 3, double_chunk 4]),
      (''wide'', [wide_struct_chunk 5])]"

definition example_table :: "(nat, unit) Table" where
  "example_table =
     \<lparr>num_columns = 3,
      column = (\<lambda>i. if 0 \<le> i \<and> i < 3 then Some (snd (example_columns ! nat i)) else None),
      GetColumnByName = map_of example_columns,
      num_rows = 4, schema = (), storage = {7, 8}\<rparr>"

text \<open>A store with one handle, at address 1, on \<open>example_table\<close>.\<close>

definition example_heap :: "(nat, unit) heap" where
  "example_heap =
     \<lparr>handles = [1 \<mapsto> 0], tables = [0 \<mapsto> example_table],
      use_count = (\<lambda>obj. if obj = 0 then 1 else 0), next_handle = 2, next_table = 1\<rparr>"

text \<open>Stand-ins for the library's \<^verbatim>\<open>Table::Slice\<close> and \<^verbatim>\<open>Table::FromRecordBatches\<close>.\<close>

definition example_Slice :: "(nat, unit) Table \<Rightarrow> int \<Rightarrow> int \<Rightarrow> (nat, unit) Table" where
  "example_Slice t offset len = t\<lparr>num_rows := max 0 (min len (num_rows t - offset))\<rparr>"

definition example_FromRecordBatches :: "nat list list \<Rightarrow> string + (nat, unit) Table" where
  "example_FromRecordBatches bs =
     Inr \<lparr>num_columns = 1, column = (\<lambda>i. None), GetColumnByName = (\<lambda>name. None),
          num_rows = sum_list (map batch_num_rows bs), schema = (), storage = {}\<rparr>"

text \<open>An open streaming reader with two batches to come.\<close>

definition example_reader :: "(unit, nat list) ParquetReader" where
  "example_reader = \<lparr>reader = Some (), batch_reader = Some [Inr [1, 2], Inr [3]]\<rparr>"




section \<open>Properties\<close>

subsection \<open>Codec selector\<close>

text \<open>
  C5. The codec mapping sends 1 to Snappy, 2 to Gzip, 3 to Brotli, 4 to Zstd, 5 to LZ4,
  6 to LZ4-frame, 7 to LZO and 8 to BZ2, and every other integer (0, the negatives and
  everything above 8) to the uncompressed codec. The mapping is a total function into the
  codec type: no tag makes it fail.
\<close>

theorem compression_of_int_table:
  "compression_of_int 1 = SNAPPY \<and> compression_of_int 2 = GZIP \<and>
   compression_of_int 3 = BROTLI \<and> compression_of_int 4 = ZSTD \<and>
   compression_of_int 5 = LZ4 \<and> compression_of_int 6 = LZ4_FRAME \<and>
   compression_of_int 7 = LZO \<and> compression_of_int 8 = BZ2 \<and>
   (\<forall>c. c < 1 \<or> 8 < c \<longrightarrow> compression_of_int c = UNCOMPRESSED)"
  by (simp add: compression_of_int_def)

theorem compression_of_int_table_witness:
  "((0::int) < 1 \<or> 8 < (0::int)) \<and> compression_of_int 0 = UNCOMPRESSED \<and>
   ((-3::int) < 1 \<or> 8 < (-3::int)) \<and> compression_of_int (-3) = UNCOMPRESSED \<and>
   ((9::int) < 1 \<or> 8 < (9::int)) \<and> compression_of_int 9 = UNCOMPRESSED"
  using compression_of_int_table by simp

subsection \<open>Column extraction\<close>

text \<open>
  The loop over the chunks stops at the first chunk of another type; without one it exports
  every chunk.
\<close>

lemma export_chunks_find:
  "export_chunks tn et es array =
     (case find (\<lambda>c. type_id (type_of c) \<noteq> et) array of
        Some c \<Rightarrow> Inl (type_mismatch_what tn et es (type_of c))
      | None \<Rightarrow> Inr (map ExportArray array))"
  by (induction array) (auto split: option.splits sum.splits)

lemma find_None_all: "find P xs = None \<longleftrightarrow> (\<forall>x\<in>set xs. \<not> P x)"
  by (induction xs) auto

lemma find_Some_mem: "find P xs = Some x \<Longrightarrow> x \<in> set xs \<and> P x"
  by (induction xs) (auto split: if_splits)

lemma sublist_take_mid:
  assumes "length ps + length xs \<le> n"
  shows "sublist xs (take n (ps @ xs @ ss))"
proof -
  have "take n (ps @ xs @ ss) = ps @ xs @ take (n - length ps - length xs) ss"
    using assms by simp
  then show ?thesis
    by (simp only: sublist_appendI)
qed

lemma sublist_take_end:
  assumes "length (ps @ xs) \<le> n"
  shows "sublist xs (take n (ps @ xs))"
proof -
  have "take n (ps @ xs) = ps @ xs"
    using assms by (simp only: take_all)
  then show ?thesis
    by (simp only: sublist_append_leftI)
qed

lemma c_str_append:
  "CHR 0x00 \<notin> set xs \<Longrightarrow> c_str (xs @ ys) = xs @ c_str ys"
  unfolding c_str_def by (rule takeWhile_append2) auto

lemma c_str_no_nul: "CHR 0x00 \<notin> set s \<Longrightarrow> c_str s = s"
  unfolding c_str_def by (auto simp: takeWhile_eq_all_conv)

lemma protect_exn_stops_at_nul:
  "protect_exn (Inl (''ab'' @ [CHR 0x00] @ ''cd'')) = Inl (Failure ''ab'')"
  by (simp add: protect_exn_def c_str_def)

lemma digit_no_nul: "n < 10 \<Longrightarrow> digit n \<noteq> CHR 0x00"
proof -
  assume "n < 10"
  then have "digit n \<in> set ''0123456789''"
    unfolding digit_def by (intro nth_mem) simp
  then show ?thesis by auto
qed

lemma string_of_nat_no_nul: "CHR 0x00 \<notin> set (string_of_nat n)"
proof (induction n rule: string_of_nat.induct)
  case (1 n)
  show ?case
  proof (cases "n < 10")
    case True
    then show ?thesis
      using digit_no_nul [of n] by (simp add: string_of_nat.simps [of n])
  next
    case False
    then show ?thesis
      using "1.IH" digit_no_nul [of "n mod 10"] by (simp add: string_of_nat.simps [of n])
  qed
qed

lemma to_string_no_nul: "CHR 0x00 \<notin> set (to_string i)"
  by (simp add: to_string_def string_of_nat_no_nul)

lemma expected_type_str_length:
  "expected_type_of dt = Inr (et, es) \<Longrightarrow> length es \<le> 9"
  by (auto simp: expected_type_of_def split: if_splits)

lemma expected_type_str_no_nul:
  "expected_type_of dt = Inr (et, es) \<Longrightarrow> CHR 0x00 \<notin> set es"
  by (auto simp: expected_type_of_def split: if_splits)

lemma expected_name_in_what:
  assumes "expected_type_of dt = Inr (et, es)"
  shows "sublist es (take 254 (c_str (type_mismatch_what tn et es ty)))"
proof -
  have len: "length ''expected type with '' + length es \<le> 254"
    using expected_type_str_length [OF assms] by simp
  have "CHR 0x00 \<notin> set (''expected type with '' @ es)"
    using expected_type_str_no_nul [OF assms] by simp
  then have "c_str ((''expected type with '' @ es)
                @ ('' (id '' @ to_string (tn et) @ '') got '' @ ToString ty))
             = (''expected type with '' @ es)
                @ c_str ('' (id '' @ to_string (tn et) @ '') got '' @ ToString ty)"
    by (rule c_str_append)
  then have eq: "c_str (type_mismatch_what tn et es ty)
      = ''expected type with '' @ es
          @ c_str ('' (id '' @ to_string (tn et) @ '') got '' @ ToString ty)"
    by (simp add: type_mismatch_what_def)
  show ?thesis
    unfolding eq using len by (rule sublist_take_mid)
qed

lemma actual_name_in_what:
  assumes "length (type_mismatch_what tn et es ty) \<le> 254"
    and "CHR 0x00 \<notin> set (ToString ty)"
    and "expected_type_of dt = Inr (et, es)"
  shows "sublist (ToString ty) (take 254 (c_str (type_mismatch_what tn et es ty)))"
proof -
  have eq: "type_mismatch_what tn et es ty =
        (''expected type with '' @ es @ '' (id '' @ to_string (tn et) @ '') got '') @ ToString ty"
    by (simp add: type_mismatch_what_def)
  have "CHR 0x00 \<notin> set (type_mismatch_what tn et es ty)"
    using assms(2) expected_type_str_no_nul [OF assms(3)] to_string_no_nul [of "tn et"]
    by (simp add: type_mismatch_what_def)
  then have c: "c_str (type_mismatch_what tn et es ty) = type_mismatch_what tn et es ty"
    by (rule c_str_no_nul)
  show ?thesis
    using assms(1) unfolding c unfolding eq by (rule sublist_take_end)
qed

lemma impl_resolved:
  assumes "expected_type_of dt = Inr (et, es)"
    and "find_column table cn ci = Inr (Some array)"
  shows "table_chunked_column_impl tn table cn ci n dt =
     (int (length array),
      case find (\<lambda>c. type_id (type_of c) \<noteq> et) array of
        Some c \<Rightarrow> Inl (Failure (take 254 (c_str (type_mismatch_what tn et es (type_of c)))))
      | None \<Rightarrow> Inr (map ExportArray array))"
  using assms
  by (simp add: table_chunked_column_impl_def export_chunks_find protect_exn_def
      split: option.splits)

lemma impl_success:
  assumes "snd (table_chunked_column_impl tn table cn ci n dt) = Inr out"
  shows "\<exists>et es array. expected_type_of dt = Inr (et, es) \<and>
           find_column table cn ci = Inr (Some array) \<and>
           (\<forall>c\<in>set array. type_id (type_of c) = et) \<and> out = map ExportArray array"
proof (cases "expected_type_of dt")
  case (Inl what)
  with assms show ?thesis
    by (simp add: table_chunked_column_impl_def protect_exn_def)
next
  case (Inr p)
  obtain et es where p: "p = (et, es)" by (cases p)
  show ?thesis
  proof (cases "find_column table cn ci")
    case (Inl what)
    with assms Inr p show ?thesis
      by (simp add: table_chunked_column_impl_def protect_exn_def)
  next
    case col: (Inr a)
    show ?thesis
    proof (cases a)
      case None
      with assms Inr p col show ?thesis
        by (simp add: table_chunked_column_impl_def protect_exn_def)
    next
      case (Some array)
      have e: "expected_type_of dt = Inr (et, es)" using Inr p by simp
      have f: "find_column table cn ci = Inr (Some array)" using col Some by simp
      from assms have
        "(case find (\<lambda>c. type_id (type_of c) \<noteq> et) array of
            Some c \<Rightarrow> Inl (Failure (take 254 (c_str (type_mismatch_what tn et es (type_of c)))))
          | None \<Rightarrow> Inr (map ExportArray array)) = Inr out"
        by (simp add: impl_resolved [OF e f])
      then have "find (\<lambda>c. type_id (type_of c) \<noteq> et) array = None \<and> out = map ExportArray array"
        by (auto split: option.splits)
      with e f show ?thesis
        by (auto simp: find_None_all)
    qed
  qed
qed

lemma by_index_in_range:
  "0 \<le> i \<Longrightarrow> i < num_columns table \<Longrightarrow>
   table_chunked_column tn table i n dt = table_chunked_column_impl tn table None i n dt"
  by (simp add: table_chunked_column_def check_column_idx_def)

lemma find_column_by_index: "find_column table None i = Inr (column table i)"
  by (simp add: find_column_def)

lemma find_column_by_name:
  "find_column table (Some name) i = Inr (Some array)
     \<longleftrightarrow> GetColumnByName table (c_str name) = Some array"
  by (simp add: find_column_def split: option.splits)

lemma impl_type_check:
  fixes table :: "('d, 's) Table"
  assumes r: "r = snd (table_chunked_column_impl tn table cn ci n dt)"
    and col: "\<And>array. find_column table cn ci = Inr (Some array) \<longleftrightarrow> col = Some array"
  shows
    "(\<forall>out. r = Inr out \<longrightarrow>
        (\<exists>et es array. expected_type_of dt = Inr (et, es) \<and> col = Some array \<and>
           (\<forall>c\<in>set array. type_id (type_of c) = et) \<and> out = map ExportArray array)) \<and>
     (\<forall>et es array.
        expected_type_of dt = Inr (et, es) \<and> col = Some array \<and>
        (\<exists>c\<in>set array. type_id (type_of c) \<noteq> et) \<longrightarrow>
        (\<exists>c\<in>set array. type_id (type_of c) \<noteq> et \<and>
           r = Inl (Failure (take 254 (c_str (type_mismatch_what tn et es (type_of c))))) \<and>
           sublist es (take 254 (c_str (type_mismatch_what tn et es (type_of c)))) \<and>
           (length (type_mismatch_what tn et es (type_of c)) \<le> 254 \<and> CHR 0x00 \<notin> set (ToString (type_of c)) \<longrightarrow>
              sublist (ToString (type_of c))
                (take 254 (c_str (type_mismatch_what tn et es (type_of c)))))))"
proof (intro conjI allI impI)
  fix out
  assume "r = Inr out"
  then have "snd (table_chunked_column_impl tn table cn ci n dt) = Inr out"
    using r by simp
  from impl_success [OF this] show
    "\<exists>et es array. expected_type_of dt = Inr (et, es) \<and> col = Some array \<and>
       (\<forall>c\<in>set array. type_id (type_of c) = et) \<and> out = map ExportArray array"
    using col by blast
next
  fix et es array
  assume a: "expected_type_of dt = Inr (et, es) \<and> col = Some array \<and>
    (\<exists>c\<in>set array. type_id (type_of c) \<noteq> et)"
  then have e: "expected_type_of dt = Inr (et, es)"
    and f: "find_column table cn ci = Inr (Some array)"
    and m: "\<exists>c\<in>set array. type_id (type_of c) \<noteq> et"
    using col by simp_all
  from m obtain c where c: "find (\<lambda>c. type_id (type_of c) \<noteq> et) array = Some c"
    using find_None_all [of "\<lambda>c. type_id (type_of c) \<noteq> et" array] by fastforce
  have "r = Inl (Failure (take 254 (c_str (type_mismatch_what tn et es (type_of c)))))"
    using r c by (simp add: impl_resolved [OF e f])
  moreover have "c \<in> set array \<and> type_id (type_of c) \<noteq> et"
    using find_Some_mem [OF c] .
  ultimately show
    "\<exists>c\<in>set array. type_id (type_of c) \<noteq> et \<and>
       r = Inl (Failure (take 254 (c_str (type_mismatch_what tn et es (type_of c))))) \<and>
       sublist es (take 254 (c_str (type_mismatch_what tn et es (type_of c)))) \<and>
       (length (type_mismatch_what tn et es (type_of c)) \<le> 254 \<and> CHR 0x00 \<notin> set (ToString (type_of c)) \<longrightarrow>
          sublist (ToString (type_of c)) (take 254 (c_str (type_mismatch_what tn et es (type_of c)))))"
    using expected_name_in_what [OF e] actual_name_in_what [OF _ _ e] by blast
qed

text \<open>
  C2, as amended. For a call through \<open>table_chunked_column\<close> (index in range) or through
  \<open>table_chunked_column_by_name\<close>, with \<open>col\<close> the column the table gives for the index or
  the name (a C string):
  \<^item> the call succeeds only if the type tag is known, the column exists and every chunk of
    it has the expected type; the descriptors are then those of all the chunks in order;
  \<^item> if some chunk, at any position, has another type, the call fails, and the message is
    the text \<^verbatim>\<open>expected type with <name> (id <n>) got <actual type>\<close> of such a chunk, read
    as a C string (it ends in front of the first NUL byte) and cut to its first 254 bytes.
    The message always contains the name of the expected type, and it contains the name of
    the actual type whenever that name has no NUL byte and the whole text has at most 254
    bytes.
\<close>

theorem table_chunked_column_type_check:
  fixes table :: "('d, 's) Table"
  assumes "r = snd (table_chunked_column tn table i n dt) \<and> col = column table i \<and>
             0 \<le> i \<and> i < num_columns table
           \<or> r = snd (table_chunked_column_by_name tn table (Some name) n dt) \<and>
             col = GetColumnByName table (c_str name)"
  shows
    "(\<forall>out. r = Inr out \<longrightarrow>
        (\<exists>et es array. expected_type_of dt = Inr (et, es) \<and> col = Some array \<and>
           (\<forall>c\<in>set array. type_id (type_of c) = et) \<and> out = map ExportArray array)) \<and>
     (\<forall>et es array.
        expected_type_of dt = Inr (et, es) \<and> col = Some array \<and>
        (\<exists>c\<in>set array. type_id (type_of c) \<noteq> et) \<longrightarrow>
        (\<exists>c\<in>set array. type_id (type_of c) \<noteq> et \<and>
           r = Inl (Failure (take 254 (c_str (type_mismatch_what tn et es (type_of c))))) \<and>
           sublist es (take 254 (c_str (type_mismatch_what tn et es (type_of c)))) \<and>
           (length (type_mismatch_what tn et es (type_of c)) \<le> 254 \<and> CHR 0x00 \<notin> set (ToString (type_of c)) \<longrightarrow>
              sublist (ToString (type_of c))
                (take 254 (c_str (type_mismatch_what tn et es (type_of c)))))))"
  using assms
proof (elim disjE conjE)
  assume r: "r = snd (table_chunked_column tn table i n dt)" and c: "col = column table i"
    and i: "0 \<le> i" "i < num_columns table"
  have r': "r = snd (table_chunked_column_impl tn table None i n dt)"
    using r by_index_in_range [OF i] by simp
  show ?thesis
    by (rule impl_type_check [OF r']) (simp add: find_column_by_index c eq_commute)
next
  assume r: "r = snd (table_chunked_column_by_name tn table (Some name) n dt)"
    and c: "col = GetColumnByName table (c_str name)"
  have r': "r = snd (table_chunked_column_impl tn table (Some name) 0 n dt)"
    using r by (simp add: table_chunked_column_by_name_def)
  show ?thesis
    by (rule impl_type_check [OF r']) (simp add: find_column_by_name c)
qed

theorem table_chunked_column_type_check_witness:
  "snd (table_chunked_column_by_name example_type_num example_table (Some ''mixed'') 7 0)
     = Inl (Failure ''expected type with int64 (id 9) got double'') \<and>
   sublist ''int64'' ''expected type with int64 (id 9) got double'' \<and>
   sublist ''double'' ''expected type with int64 (id 9) got double''"
proof -
  let ?r = "snd (table_chunked_column_by_name example_type_num example_table (Some ''mixed'') 7 0)"
  let ?array = "[int64_chunk 3, double_chunk 4]"
  have e: "expected_type_of 0 = Inr (INT64, ''int64'')"
    by (simp add: expected_type_of_def)
  have col: "GetColumnByName example_table ''mixed'' = Some ?array"
    by code_simp
  have bad: "\<exists>c\<in>set ?array. type_id (type_of c) \<noteq> INT64"
    by (simp add: double_chunk_def)
  have what: "\<And>c. c \<in> set ?array \<Longrightarrow> type_id (type_of c) \<noteq> INT64 \<Longrightarrow>
        type_mismatch_what example_type_num INT64 ''int64'' (type_of c)
          = ''expected type with int64 (id 9) got double''"
  proof -
    fix c assume "c \<in> set ?array" "type_id (type_of c) \<noteq> INT64"
    then have "c = double_chunk 4"
      by (auto simp: int64_chunk_def)
    moreover have "type_mismatch_what example_type_num INT64 ''int64'' (type_of (double_chunk 4))
          = ''expected type with int64 (id 9) got double''"
      by code_simp
    ultimately show "type_mismatch_what example_type_num INT64 ''int64'' (type_of c)
          = ''expected type with int64 (id 9) got double''"
      by simp
  qed
  have col': "Some ?array = GetColumnByName example_table (c_str ''mixed'')"
    by code_simp
  note T = table_chunked_column_type_check
      [where r = ?r and tn = example_type_num and table = example_table and n = 7 and dt = 0
         and col = "Some ?array" and name = "''mixed''",
       OF disjI2 [OF conjI [OF refl col']]]
  have "\<exists>c\<in>set ?array. type_id (type_of c) \<noteq> INT64 \<and>
           ?r = Inl (Failure (take 254 (c_str (type_mismatch_what example_type_num INT64 ''int64'' (type_of c))))) \<and>
           sublist ''int64'' (take 254 (c_str (type_mismatch_what example_type_num INT64 ''int64'' (type_of c)))) \<and>
           (length (type_mismatch_what example_type_num INT64 ''int64'' (type_of c)) \<le> 254 \<and> CHR 0x00 \<notin> set (ToString (type_of c)) \<longrightarrow>
              sublist (ToString (type_of c))
                (take 254 (c_str (type_mismatch_what example_type_num INT64 ''int64'' (type_of c)))))"
    by (rule T [THEN conjunct2, rule_format]) (intro conjI e refl bad)
  then obtain c where c: "c \<in> set ?array" "type_id (type_of c) \<noteq> INT64"
    and r: "?r = Inl (Failure (take 254 (c_str (type_mismatch_what example_type_num INT64 ''int64'' (type_of c)))))"
    and s1: "sublist ''int64'' (take 254 (c_str (type_mismatch_what example_type_num INT64 ''int64'' (type_of c))))"
    and s2: "length (type_mismatch_what example_type_num INT64 ''int64'' (type_of c)) \<le> 254 \<and> CHR 0x00 \<notin> set (ToString (type_of c)) \<longrightarrow>
              sublist (ToString (type_of c))
                (take 254 (c_str (type_mismatch_what example_type_num INT64 ''int64'' (type_of c))))"
    by blast
  have cd: "c = double_chunk 4" using c by (auto simp: int64_chunk_def)
  have ts: "ToString (type_of c) = ''double''" by (simp add: cd double_chunk_def)
  show ?thesis
    using r s1 s2 by (simp add: what [OF c] ts c_str_def)
qed

text \<open>
  The claim as stated, that the message names the actual type, fails for a type with a long
  name: for the struct chunk of \<open>example_table\<close> the message ends inside the field name, and
  the name of the type is not part of it.
\<close>

theorem message_names_actual_type_counterexample:
  "snd (table_chunked_column example_type_num example_table 2 7 0)
     = Inl (Failure (''expected type with int64 (id 9) got struct<'' @ replicate 211 (CHR ''x''))) \<and>
   \<not> sublist (ToString (type_of (wide_struct_chunk 5)))
       (''expected type with int64 (id 9) got struct<'' @ replicate 211 (CHR ''x''))"
proof
  show "snd (table_chunked_column example_type_num example_table 2 7 0)
     = Inl (Failure (''expected type with int64 (id 9) got struct<'' @ replicate 211 (CHR ''x'')))"
    by code_simp
  show "\<not> sublist (ToString (type_of (wide_struct_chunk 5)))
       (''expected type with int64 (id 9) got struct<'' @ replicate 211 (CHR ''x''))"
  proof
    assume "sublist (ToString (type_of (wide_struct_chunk 5)))
       (''expected type with int64 (id 9) got struct<'' @ replicate 211 (CHR ''x''))"
    from sublist_length_le [OF this] show False
      by (simp add: wide_struct_chunk_def)
  qed
qed

text \<open>
  C4, as amended. When \<open>table_chunked_column_\<close> fails the caller gets the failure only (the
  hypothesis: the result is \<open>Inl\<close>, which carries no descriptor). \<^verbatim>\<open>*nchunks\<close> keeps its
  content when the type tag is unknown or the column is missing. When tag and column are
  fine, the failure is a chunk of another type, and \<^verbatim>\<open>*nchunks\<close> then holds the number of
  chunks of the column: it is written before the chunks are checked.
\<close>

theorem failed_column_call_nchunks:
  fixes table :: "('d, 's) Table"
  assumes "snd (table_chunked_column_impl tn table cn ci n dt) = Inl e"
  shows
    "((\<exists>what. expected_type_of dt = Inl what) \<longrightarrow>
        fst (table_chunked_column_impl tn table cn ci n dt) = n) \<and>
     ((\<exists>what. find_column table cn ci = Inl what) \<or> find_column table cn ci = Inr None \<longrightarrow>
        fst (table_chunked_column_impl tn table cn ci n dt) = n) \<and>
     (\<forall>et es array.
        expected_type_of dt = Inr (et, es) \<and> find_column table cn ci = Inr (Some array) \<longrightarrow>
        fst (table_chunked_column_impl tn table cn ci n dt) = int (length array) \<and>
        (\<exists>c\<in>set array. type_id (type_of c) \<noteq> et))"
proof -
  have 1: "(\<exists>what. expected_type_of dt = Inl what) \<longrightarrow>
        fst (table_chunked_column_impl tn table cn ci n dt) = n"
    by (auto simp: table_chunked_column_impl_def)
  have 2: "(\<exists>what. find_column table cn ci = Inl what) \<or> find_column table cn ci = Inr None \<longrightarrow>
        fst (table_chunked_column_impl tn table cn ci n dt) = n"
    by (auto simp: table_chunked_column_impl_def split: sum.splits prod.splits)
  have 3: "fst (table_chunked_column_impl tn table cn ci n dt) = int (length array) \<and>
        (\<exists>c\<in>set array. type_id (type_of c) \<noteq> et)"
    if a: "expected_type_of dt = Inr (et, es) \<and> find_column table cn ci = Inr (Some array)"
    for et es array
  proof -
    from a have e: "expected_type_of dt = Inr (et, es)"
      and f: "find_column table cn ci = Inr (Some array)" by simp_all
    have "find (\<lambda>c. type_id (type_of c) \<noteq> et) array \<noteq> None"
      using assms by (auto simp: impl_resolved [OF e f] split: option.splits)
    then have "\<exists>c\<in>set array. type_id (type_of c) \<noteq> et"
      by (simp add: find_None_all)
    then show ?thesis
      by (simp add: impl_resolved [OF e f])
  qed
  from 1 2 3 show ?thesis
    by blast
qed

theorem failed_column_call_nchunks_witness:
  "snd (table_chunked_column_impl example_type_num example_table (Some ''ints'') 0 7 9)
     = Inl (Failure ''unknown datatype 9'') \<and>
   fst (table_chunked_column_impl example_type_num example_table (Some ''ints'') 0 7 9) = 7"
proof -
  have h: "snd (table_chunked_column_impl example_type_num example_table (Some ''ints'') 0 7 9)
     = Inl (Failure ''unknown datatype 9'')"
    by code_simp
  have u: "\<exists>what. expected_type_of 9 = Inl what"
    by (simp add: expected_type_of_def)
  show ?thesis
    using h failed_column_call_nchunks [OF h, THEN conjunct1, rule_format, OF u] by simp
qed

text \<open>
  The claim as stated, that a failed call leaves \<^verbatim>\<open>*nchunks\<close> unmodified, fails: asked for
  the column \<open>mixed\<close> as \<^verbatim>\<open>int64\<close> with \<^verbatim>\<open>*nchunks\<close> holding 7, the call fails and leaves 2
  there.
\<close>

theorem nchunks_modified_counterexample:
  "snd (table_chunked_column_impl example_type_num example_table (Some ''mixed'') 0 7 0)
     = Inl (Failure ''expected type with int64 (id 9) got double'') \<and>
   fst (table_chunked_column_impl example_type_num example_table (Some ''mixed'') 0 7 0) = 2 \<and>
   (2::int) \<noteq> 7"
  by code_simp

subsection \<open>Streaming reader\<close>

lemma next_when_closed:
  "batch_reader pr = None \<Longrightarrow>
   parquet_reader_next F pr = (Inl (Failure ''reader has already been closed''), pr)"
  by (simp add: parquet_reader_next_def)

lemma close_is_closed: "batch_reader (parquet_reader_close pr) = None"
  by (simp add: parquet_reader_close_def)

lemma run_reader_closed:
  "batch_reader pr = None \<Longrightarrow>
   \<forall>res\<in>set (run_reader F pr calls). res = Inl (Failure ''reader has already been closed'')"
proof (induction calls arbitrary: pr)
  case Nil
  then show ?case by simp
next
  case (Cons call calls)
  show ?case
  proof (cases call)
    case Next
    with Cons show ?thesis
      by (simp add: next_when_closed)
  next
    case Close
    with Cons.IH [OF close_is_closed] show ?thesis
      by simp
  qed
qed

text \<open>
  C3. On a reader that has been closed, \<open>parquet_reader_next\<close> fails with the message
  \<^verbatim>\<open>reader has already been closed\<close> and leaves the reader as it is; the result is the
  failure raised by the test in front of the read path, not the fault of dereferencing the
  null iterator. The same holds for every \<open>Next\<close> in any sequence of calls made after the
  close.
\<close>

theorem next_after_close_fails:
  "parquet_reader_next F (parquet_reader_close pr)
     = (Inl (Failure ''reader has already been closed''), parquet_reader_close pr) \<and>
   (\<forall>res\<in>set (run_reader F (parquet_reader_close pr) calls).
      res = Inl (Failure ''reader has already been closed''))"
  using next_when_closed [OF close_is_closed] run_reader_closed [OF close_is_closed]
  by blast

theorem next_after_close_fails_witness:
  "fst (parquet_reader_next example_FromRecordBatches (parquet_reader_close example_reader))
     \<in> set (run_reader example_FromRecordBatches (parquet_reader_close example_reader)
              [Next, Close, Next]) \<and>
   fst (parquet_reader_next example_FromRecordBatches (parquet_reader_close example_reader))
     = Inl (Failure ''reader has already been closed'')"
  using next_after_close_fails
    [of example_FromRecordBatches example_reader "[Next, Close, Next]"]
  by simp

lemma close_twice: "parquet_reader_close (parquet_reader_close pr) = parquet_reader_close pr"
  by (simp add: parquet_reader_close_def)

text \<open>
  C7. Closing a closed reader changes nothing: two closes, and any larger number of them,
  leave the reader as one close does, with both the iterator and the file reader released.
  \<open>parquet_reader_close\<close> has no failing branch.
\<close>

theorem parquet_reader_close_idempotent:
  "parquet_reader_close (parquet_reader_close pr) = parquet_reader_close pr \<and>
   (parquet_reader_close ^^ Suc k) pr = parquet_reader_close pr \<and>
   batch_reader (parquet_reader_close pr) = None \<and>
   reader (parquet_reader_close pr) = None"
proof -
  have "(parquet_reader_close ^^ Suc k) pr = parquet_reader_close pr"
  proof (induction k)
    case 0
    show ?case by simp
  next
    case (Suc k)
    have "(parquet_reader_close ^^ Suc (Suc k)) pr
            = parquet_reader_close ((parquet_reader_close ^^ Suc k) pr)"
      by simp
    also have "\<dots> = parquet_reader_close (parquet_reader_close pr)"
      by (simp only: Suc.IH)
    finally show ?case
      by (simp only: close_twice)
  qed
  then show ?thesis
    by (simp add: close_twice) (simp add: parquet_reader_close_def)
qed

subsection \<open>Table handles\<close>

text \<open>
  C8. \<open>table_num_rows\<close> returns 0 for the null handle and the row count of the table for a
  handle that can be dereferenced (which is then not null). The other accessors have no
  such test: \<open>table_schema\<close>, and \<open>table_slice\<close> with arguments that pass its checks, fault on
  the null handle.
\<close>

theorem table_num_rows_null:
  "table_num_rows H 0 = Inr 0 \<and>
   (deref H table = Inr t \<longrightarrow> table \<noteq> 0 \<and> table_num_rows H table = Inr (num_rows t)) \<and>
   table_schema H 0 = Inl Segfault \<and>
   (0 \<le> offset \<and> 0 \<le> len \<longrightarrow> table_slice Slice H 0 offset len = Inl Segfault)"
  by (auto simp: table_num_rows_def table_schema_def table_slice_def deref_def)

theorem table_num_rows_null_witness:
  "deref example_heap 1 = Inr example_table \<and>
   table_num_rows example_heap 1 = Inr 4 \<and>
   (0::int) \<le> 0 \<and> table_slice example_Slice example_heap 0 0 0 = Inl Segfault"
proof -
  have d: "deref example_heap 1 = Inr example_table"
    by (simp add: deref_def example_heap_def)
  have n: "num_rows example_table = 4"
    by (simp add: example_table_def)
  show ?thesis
    using table_num_rows_null [of example_heap 1 example_table 0 0 example_Slice] d n
    by simp
qed

text \<open>
  C10. \<open>free_table\<close> leaves the store as it is for the null handle. For a live handle it
  succeeds, removes that cell, leaves every other cell as it was, lowers the use count of
  the handle's table object by one and touches no other object; the object itself stays
  while it has another owner.
\<close>

theorem free_table_releases_one_handle:
  "free_table H 0 = Inr H \<and>
   (table \<noteq> 0 \<and> handles H table = Some obj \<longrightarrow>
      (\<exists>H'. free_table H table = Inr H' \<and>
         handles H' table = None \<and>
         (\<forall>p. p \<noteq> table \<longrightarrow> handles H' p = handles H p) \<and>
         use_count H' obj = use_count H obj - 1 \<and>
         (1 < use_count H obj \<longrightarrow> tables H' obj = tables H obj) \<and>
         (\<forall>obj'. obj' \<noteq> obj \<longrightarrow>
            use_count H' obj' = use_count H obj' \<and> tables H' obj' = tables H obj')))"
  by (simp add: free_table_def delete_handle_def)

theorem free_table_releases_one_handle_witness:
  "(1::nat) \<noteq> 0 \<and> handles example_heap 1 = Some 0 \<and>
   (\<exists>H'. free_table example_heap 1 = Inr H' \<and> handles H' 1 = None \<and>
      use_count H' 0 = 0)"
proof -
  have h: "(1::nat) \<noteq> 0 \<and> handles example_heap 1 = Some 0"
    by (simp add: example_heap_def)
  have u: "use_count example_heap 0 = 1"
    by (simp add: example_heap_def)
  show ?thesis
    using h u free_table_releases_one_handle [of example_heap 1 0]
    by auto
qed

lemma new_handle_fresh:
  assumes "heap_ok H" and "new_handle H t = (p, H')"
  shows "p \<noteq> 0 \<and> handles H p = None \<and> deref H' p = Inr t \<and> heap_ok H' \<and>
         (\<forall>q t'. deref H q = Inr t' \<longrightarrow> deref H' q = Inr t')"
proof -
  have p: "p = next_handle H" and H': "H' = snd (new_handle H t)"
    using assms(2) by (auto simp: new_handle_def)
  have fresh: "handles H (next_handle H) = None" "tables H (next_table H) = None"
    and pos: "0 < next_handle H"
    using assms(1) by (simp_all add: heap_ok_def)
  have 1: "p \<noteq> 0" using p pos by simp
  have 2: "handles H p = None" using p fresh by simp
  have 3: "deref H' p = Inr t"
    using pos by (simp add: H' p new_handle_def deref_def)
  have 4: "heap_ok H'"
    using assms(1) unfolding H' new_handle_def heap_ok_def
    by (auto split: if_splits)
  have 5: "deref H' q = Inr t'" if "deref H q = Inr t'" for q t'
  proof -
    from that obtain obj where q: "q \<noteq> 0" "handles H q = Some obj" "tables H obj = Some t'"
      by (auto simp: deref_def split: if_splits option.splits)
    have "q \<noteq> next_handle H" using q fresh by auto
    moreover have "obj \<noteq> next_table H" using q fresh by auto
    ultimately show ?thesis
      using q by (simp add: H' new_handle_def deref_def)
  qed
  from 1 2 3 4 5 show ?thesis by blast
qed

lemma Arrow_Table_Slice_in_range:
  "0 \<le> len \<Longrightarrow> offset + len \<le> num_rows t \<Longrightarrow>
   num_rows (Arrow_Table_Slice cs t offset len) = len"
  by (simp add: Arrow_Table_Slice_def)

lemma Arrow_Table_Slice_zero_copy:
  "storage (Arrow_Table_Slice cs t offset len) = storage t \<and>
   schema (Arrow_Table_Slice cs t offset len) = schema t \<and>
   num_columns (Arrow_Table_Slice cs t offset len) = num_columns t"
  by (simp add: Arrow_Table_Slice_def)

text \<open>
  C6. \<open>table_slice\<close> fails with an argument error exactly when \<open>offset\<close> or \<open>len\<close> is negative,
  and no handle comes out of such a call; this holds whatever the library's \<open>Slice\<close> does.
  With the library's slice as modelled above, for a handle on a table \<open>t\<close> and a range
  inside \<open>t\<close> the call returns a new non-null handle, not in use before, on the slice of
  \<open>t\<close>: the bridge wraps what the library returns and copies nothing. The new handle
  reports \<open>len\<close> rows, its table points into no storage but that of the source, and the
  handle of the source stays valid.
\<close>

theorem table_slice_checks_and_view:
  "((\<exists>msg. table_slice Slice H table offset len = Inl (Invalid_argument msg))
      \<longleftrightarrow> offset < 0 \<or> len < 0) \<and>
   (offset < 0 \<or> len < 0 \<longrightarrow> (\<forall>p H'. table_slice Slice H table offset len \<noteq> Inr (p, H'))) \<and>
   (heap_ok H \<and> deref H table = Inr t \<and> 0 \<le> offset \<and> 0 \<le> len \<and>
    offset + len \<le> num_rows t \<longrightarrow>
      (\<exists>p H' t'. table_slice (Arrow_Table_Slice cs) H table offset len = Inr (p, H') \<and>
         p \<noteq> 0 \<and> handles H p = None \<and>
         deref H' p = Inr t' \<and> t' = Arrow_Table_Slice cs t offset len \<and>
         table_num_rows H' p = Inr len \<and>
         storage t' \<subseteq> storage t \<and>
         deref H' table = Inr t \<and> heap_ok H'))"
proof -
  have 1: "(\<exists>msg. table_slice Slice H table offset len = Inl (Invalid_argument msg))
      \<longleftrightarrow> offset < 0 \<or> len < 0"
    by (auto simp: table_slice_def deref_def split: sum.splits option.splits if_splits)
  have 2: "offset < 0 \<or> len < 0 \<longrightarrow>
      (\<forall>p H'. table_slice Slice H table offset len \<noteq> Inr (p, H'))"
    by (auto simp: table_slice_def)
  have 3: "\<exists>p H' t'. table_slice (Arrow_Table_Slice cs) H table offset len = Inr (p, H') \<and>
         p \<noteq> 0 \<and> handles H p = None \<and>
         deref H' p = Inr t' \<and> t' = Arrow_Table_Slice cs t offset len \<and>
         table_num_rows H' p = Inr len \<and>
         storage t' \<subseteq> storage t \<and>
         deref H' table = Inr t \<and> heap_ok H'"
    if a: "heap_ok H \<and> deref H table = Inr t \<and> 0 \<le> offset \<and> 0 \<le> len \<and>
      offset + len \<le> num_rows t"
  proof -
    obtain p H' where n: "new_handle H (Arrow_Table_Slice cs t offset len) = (p, H')"
      by (cases "new_handle H (Arrow_Table_Slice cs t offset len)")
    from a have ok: "heap_ok H" and d: "deref H table = Inr t" by simp_all
    note f = new_handle_fresh [OF ok n]
    have rows: "num_rows (Arrow_Table_Slice cs t offset len) = len"
      using a by (simp add: Arrow_Table_Slice_in_range)
    have r: "table_slice (Arrow_Table_Slice cs) H table offset len = Inr (p, H')"
      using a n by (simp add: table_slice_def)
    have nr: "table_num_rows H' p = Inr len"
      using f rows by (simp add: table_num_rows_def)
    from f d have keep: "deref H' table = Inr t" by blast
    show ?thesis
      using r f nr keep Arrow_Table_Slice_zero_copy [of cs t offset len] by simp
  qed
  from 1 2 3 show ?thesis by blast
qed

theorem table_slice_checks_and_view_witness:
  "heap_ok example_heap \<and> deref example_heap 1 = Inr example_table \<and>
   (0::int) \<le> 1 \<and> (0::int) \<le> 2 \<and> 1 + 2 \<le> num_rows example_table \<and>
   (\<exists>p H'. table_slice (Arrow_Table_Slice (\<lambda>chunks offset len. chunks)) example_heap 1 1 2
              = Inr (p, H') \<and>
      p = 2 \<and> table_num_rows H' p = Inr 2 \<and> table_num_rows H' 1 = Inr 4)"
proof -
  have ok: "heap_ok example_heap"
    by (simp add: heap_ok_def example_heap_def)
  have d: "deref example_heap 1 = Inr example_table"
    by (simp add: deref_def example_heap_def)
  have n: "num_rows example_table = 4"
    by (simp add: example_table_def)
  have nh: "fst (new_handle example_heap t) = 2" for t :: "(nat, unit) Table"
    by (simp add: new_handle_def example_heap_def)
  have p: "table_slice (Arrow_Table_Slice (\<lambda>chunks offset len. chunks)) example_heap 1 1 2
             = Inr (p, H') \<Longrightarrow> p = 2" for p H'
  proof -
    assume "table_slice (Arrow_Table_Slice (\<lambda>chunks offset len. chunks)) example_heap 1 1 2
             = Inr (p, H')"
    then have "new_handle example_heap
                 (Arrow_Table_Slice (\<lambda>chunks offset len. chunks) example_table 1 2) = (p, H')"
      using d by (simp add: table_slice_def)
    then have "fst (new_handle example_heap
                 (Arrow_Table_Slice (\<lambda>chunks offset len. chunks) example_table 1 2)) = p"
      by simp
    then show "p = 2"
      using nh by simp
  qed
  have "\<exists>p H' t'.
          table_slice (Arrow_Table_Slice (\<lambda>chunks offset len. chunks)) example_heap 1 1 2
            = Inr (p, H') \<and>
          p \<noteq> 0 \<and> handles example_heap p = None \<and>
          deref H' p = Inr t' \<and>
          t' = Arrow_Table_Slice (\<lambda>chunks offset len. chunks) example_table 1 2 \<and>
          table_num_rows H' p = Inr 2 \<and>
          storage t' \<subseteq> storage example_table \<and>
          deref H' 1 = Inr example_table \<and> heap_ok H'"
    using table_slice_checks_and_view
      [of _ example_heap 1 1 2 example_table "\<lambda>chunks offset len. chunks",
       THEN conjunct2, THEN conjunct2]
      ok d n
    by simp
  then obtain p H' where
    r: "table_slice (Arrow_Table_Slice (\<lambda>chunks offset len. chunks)) example_heap 1 1 2
          = Inr (p, H')"
    and nr: "table_num_rows H' p = Inr 2" and keep: "deref H' 1 = Inr example_table"
    by blast
  have "table_num_rows H' 1 = Inr 4"
    using keep n by (simp add: table_num_rows_def)
  with r nr p [OF r] ok d n show ?thesis
    by auto
qed

subsection \<open>Native-IPC file writer\<close>

text \<open>
  C9. \<open>arrow_write_file\<close> does not look at \<open>chunk_size\<close>: with any two values it makes the
  same library calls in the same state of the world, and ends with the same result and the
  same world (so the same file).
\<close>

theorem arrow_write_file_ignores_chunk_size:
  "arrow_write_file lib filename array array_schema a w
     = arrow_write_file lib filename array array_schema b w"
  by (simp add: arrow_write_file_def)

subsection \<open>Bulk Parquet read\<close>


















end
